theory Spec2Isabelle
  imports Complex_Main
begin

section \<open>Mannheim DS Planner: the client-side planning state\<close>

text \<open>
  A shallow embedding of \<^verbatim>\<open>static/js/app.js\<close>: the storage functions, the
  \<^verbatim>\<open>summary\<close> and \<^verbatim>\<open>area_progress\<close> getters and the actions of
  \<^verbatim>\<open>plannerApp\<close> that write \<^verbatim>\<open>this.selections\<close>.

  The merged course list (\<^verbatim>\<open>courses\<close>), the server-side export and the chart are
  not modelled.

  JavaScript values are modelled at the types the catalog and the planner give them.
  A number is an \<^typ>\<open>int\<close> (credit points; \<^verbatim>\<open>parseInt\<close> yields integers; the
  code's numbers are exact on integers below \<^verbatim>\<open>2^53\<close> and round beyond) and a
  quotient of two numbers is an exact \<^typ>\<open>rat\<close>; a field that may be \<^verbatim>\<open>null\<close> or
  missing is an \<^typ>\<open>'a option\<close>. Ids and statuses, which the code only compares, are
  \<^typ>\<open>string\<close>s; the text of the credit input, which \<^verbatim>\<open>parseInt\<close> reads, is a
  list of UTF-16 code units. The truthiness tests of the source
  (\<^verbatim>\<open>a || b\<close>, \<^verbatim>\<open>if (x)\<close>, \<^verbatim>\<open>!x\<close>) are written out: \<^verbatim>\<open>null\<close>,
  \<^verbatim>\<open>undefined\<close>, \<^verbatim>\<open>NaN\<close>, \<^verbatim>\<open>0\<close> and the empty string are falsy.
\<close>

subsection \<open>Records of the catalog and of the selection list\<close>

text \<open>A selection, as \<^verbatim>\<open>planCourse\<close> and \<^verbatim>\<open>addAdditionalCourse\<close> push it.\<close>

record selection =
  course_id :: string
  status :: string
  selection_id :: string
  ects :: "int option"

text \<open>A catalog entry (the fields the planner reads).\<close>

record course =
  c_id :: string
  c_ects :: "int option"
  c_is_additional_course :: bool
  c_max_ects :: "int option"
  c_area_id :: "string option"

text \<open>An entry of \<^verbatim>\<open>rules.areas\<close>.\<close>

record area_rule =
  r_id :: string
  r_name :: string
  r_min_ects :: "int option"
  r_max_ects :: "int option"
  r_required_ects :: "int option"

subsection \<open>Truthiness\<close>

text \<open>\<^verbatim>\<open>a || b\<close> on numbers that may be missing: \<^verbatim>\<open>a\<close> unless it is falsy.\<close>

definition js_or :: "int option \<Rightarrow> int option \<Rightarrow> int option" where
  "js_or a b = (case a of None \<Rightarrow> b | Some n \<Rightarrow> if n \<noteq> 0 then Some n else b)"

text \<open>\<^verbatim>\<open>a || d\<close> with a numeric literal \<^verbatim>\<open>d\<close> on the right.\<close>

definition js_or_num :: "int option \<Rightarrow> int \<Rightarrow> int" where
  "js_or_num a d = (case a of None \<Rightarrow> d | Some n \<Rightarrow> if n \<noteq> 0 then n else d)"

text \<open>Truthiness of a string argument that may be \<^verbatim>\<open>null\<close>.\<close>

definition truthy_str :: "string option \<Rightarrow> bool" where
  "truthy_str s = (case s of None \<Rightarrow> False | Some t \<Rightarrow> t \<noteq> [])"


text \<open>\<^verbatim>\<open>this.catalog.find(c => c.id === courseId)\<close>: the first entry with that id.\<close>

definition find_course :: "course list \<Rightarrow> string \<Rightarrow> course option" where
  "find_course catalog courseId = List.find (\<lambda>c. c_id c = courseId) catalog"

subsection \<open>Local storage and JSON documents\<close>

text \<open>
  The planner keeps one item in \<^verbatim>\<open>localStorage\<close> and reads one backup file. Both
  are JSON texts of an envelope
  \<^verbatim>\<open>{version, selections, lastModified}\<close> or \<^verbatim>\<open>{version, exportDate, selections}\<close>.
  A text is modelled by what \<^verbatim>\<open>JSON.parse\<close> makes of it: an envelope object,
  \<^verbatim>\<open>null\<close> (reading a property of it throws a TypeError), another JSON value
  (a number, string, boolean or array: its properties are \<^verbatim>\<open>undefined\<close>), or
  nothing when the text is not JSON (\<^verbatim>\<open>JSON.parse\<close> throws a SyntaxError). In an
  envelope, \<^verbatim>\<open>selections\<close> is a list of selections or is missing; \<^verbatim>\<open>version\<close>
  is a string or is missing.
\<close>

record envelope =
  e_version :: "string option"
  e_selections :: "selection list option"
  e_lastModified :: "string option"
  e_exportDate :: "string option"

datatype json_value = JsonNull | JsonOther | JsonObject envelope

datatype stored_text = EmptyText | MalformedText | JsonText json_value

definition JSON_parse :: "stored_text \<Rightarrow> json_value option" where
  "JSON_parse t = (case t of EmptyText \<Rightarrow> None | MalformedText \<Rightarrow> None | JsonText v \<Rightarrow> Some v)"

definition JSON_stringify :: "json_value \<Rightarrow> stored_text" where
  "JSON_stringify v = JsonText v"

definition STORAGE_VERSION :: string where
  "STORAGE_VERSION = ''1.0''"

text \<open>What the functions print on the console, and the alerts they raise.\<close>

datatype console_message = Version_mismatch | Failed_to_load

datatype alert = Enter_ects | Enter_ects_ac | Max_ects_available int | Error_saving
  | Invalid_file | Import_error

text \<open>
  What an action reads from the browser: the clock (\<^verbatim>\<open>Date.now()\<close> and
  \<^verbatim>\<open>new Date().toISOString()\<close>), \<^verbatim>\<open>Math.random().toString(36)\<close>, the user's
  answer to \<^verbatim>\<open>confirm\<close>, and whether \<^verbatim>\<open>localStorage.setItem\<close> succeeds (it
  throws when the quota is exceeded).
\<close>

record browser =
  date_now :: nat
  date_iso :: string
  math_random_36 :: string
  confirm_answer :: bool
  setItem_ok :: bool

text \<open>\<^verbatim>\<open>loadSelectionsFromStorage\<close>, on the item \<^verbatim>\<open>localStorage.getItem\<close> returns.\<close>

definition loadSelectionsFromStorage ::
    "stored_text option \<Rightarrow> console_message list \<times> selection list" where
  "loadSelectionsFromStorage item =
     (case item of
        None \<Rightarrow> ([], [])
      | Some EmptyText \<Rightarrow> ([], [])
      | Some data \<Rightarrow>
          (case JSON_parse data of
             None \<Rightarrow> ([Failed_to_load], [])
           | Some JsonNull \<Rightarrow> ([Failed_to_load], [])
           | Some JsonOther \<Rightarrow> ([Version_mismatch], [])
           | Some (JsonObject parsed) \<Rightarrow>
               ((if e_version parsed \<noteq> Some STORAGE_VERSION then [Version_mismatch] else []),
                (case e_selections parsed of None \<Rightarrow> [] | Some sels \<Rightarrow> sels))))"

text \<open>
  \<^verbatim>\<open>saveSelectionsToStorage\<close>: the new item and the alerts. When \<^verbatim>\<open>setItem\<close>
  throws, the item stays as it was and the user is alerted.
\<close>

definition saveSelectionsToStorage ::
    "browser \<Rightarrow> selection list \<Rightarrow> stored_text option \<Rightarrow> alert list \<times> stored_text option" where
  "saveSelectionsToStorage b sels item =
     (let data = \<lparr>e_version = Some STORAGE_VERSION, e_selections = Some sels,
                   e_lastModified = Some (date_iso b), e_exportDate = None\<rparr>
      in if setItem_ok b then ([], Some (JSON_stringify (JsonObject data)))
         else ([Error_saving], item))"

text \<open>
  A clock reading as \<^verbatim>\<open>'sel_' + Date.now()\<close> prints it: the decimal digits, the
  most significant first.
\<close>

definition digit_char :: "nat \<Rightarrow> char" where
  "digit_char d = char_of (of_char CHR ''0'' + d)"

fun number_toString :: "nat \<Rightarrow> string" where
  "number_toString n =
     (if n div 10 = 0 then [digit_char n]
      else number_toString (n div 10) @ [digit_char (n mod 10)])"

declare number_toString.simps [simp del]

text \<open>\<^verbatim>\<open>s.substr(start, length)\<close> for a start inside the string.\<close>

definition substr :: "string \<Rightarrow> nat \<Rightarrow> nat \<Rightarrow> string" where
  "substr s start len = take len (drop start s)"

definition generateSelectionId :: "browser \<Rightarrow> string" where
  "generateSelectionId b =
     ''sel_'' @ number_toString (date_now b) @ ''_'' @ substr (math_random_36 b) 2 9"

subsection \<open>Texts read by \<^verbatim>\<open>parseInt\<close>\<close>

text \<open>
  A JavaScript string is a sequence of UTF-16 code units. \<^verbatim>\<open>code_units\<close> gives the
  code units of an ASCII text.
\<close>

type_synonym code_unit = nat

definition code_units :: "string \<Rightarrow> code_unit list" where
  "code_units s = map of_char s"

subsection \<open>The application state\<close>

text \<open>
  The fields of the object \<^verbatim>\<open>plannerApp()\<close> returns that the actions read or write,
  and the item under \<^verbatim>\<open>STORAGE_KEY\<close>. \<^verbatim>\<open>rules\<close> is \<^verbatim>\<open>None\<close> when
  \<^verbatim>\<open>this.rules?.areas\<close> is missing. \<^verbatim>\<open>additionalCourseEcts\<close> holds the own
  properties of that object: per course id the text of the credit input, or
  \<^verbatim>\<open>None\<close> for \<^verbatim>\<open>null\<close> and for no property.
\<close>

record app =
  catalog :: "course list"
  rules :: "area_rule list option"
  selections :: "selection list"
  additionalCourseEcts :: "string \<Rightarrow> code_unit list option"
  localStorage :: "stored_text option"

text \<open>
  \<^verbatim>\<open>this.additionalCourseEcts[courseId]\<close>, as \<^verbatim>\<open>parseInt\<close> reads it.
  \<^verbatim>\<open>additionalCourseEcts\<close> is a plain object: under \<^verbatim>\<open>__proto__\<close> the lookup gives
  the prototype, and under another inherited name without an own property an inherited
  function; \<^verbatim>\<open>parseInt\<close> reads no number from either, as from \<^verbatim>\<open>undefined\<close>.
\<close>

definition credit_input :: "app \<Rightarrow> string \<Rightarrow> code_unit list option" where
  "credit_input st courseId =
     (if courseId = ''__proto__'' then None else additionalCourseEcts st courseId)"

text \<open>
  The credit input of a course is bound to \<^verbatim>\<open>additionalCourseEcts[courseId]\<close>: typing
  a text assigns it. The assignment of a text to \<^verbatim>\<open>__proto__\<close> is ignored by the
  inherited setter.
\<close>

definition set_credit_input :: "app \<Rightarrow> string \<Rightarrow> code_unit list \<Rightarrow> app" where
  "set_credit_input st courseId input =
     (if courseId = ''__proto__'' then st
      else st\<lparr>additionalCourseEcts := (additionalCourseEcts st)(courseId \<mapsto> input)\<rparr>)"

subsection \<open>The getters \<^verbatim>\<open>summary\<close> and \<^verbatim>\<open>area_progress\<close>\<close>

record summary_result =
  s_planned_ects :: int
  s_completed_ects :: int
  s_progress :: rat

text \<open>
  The body of the \<^verbatim>\<open>for\<close> loop of \<^verbatim>\<open>summary\<close>, on the pair
  \<^verbatim>\<open>(plannedEcts, completedEcts)\<close>.
\<close>

fun summary_loop :: "course list \<Rightarrow> selection list \<Rightarrow> int \<times> int \<Rightarrow> int \<times> int" where
  "summary_loop cat [] acc = acc"
| "summary_loop cat (sel # rest) (plannedEcts, completedEcts) =
     (let course = find_course cat (course_id sel);
          ects' = js_or_num (js_or (ects sel) (case course of None \<Rightarrow> None | Some c \<Rightarrow> c_ects c)) 0
      in summary_loop cat rest
           (plannedEcts + ects',
            if status sel = ''completed'' then completedEcts + ects' else completedEcts))"

definition summary :: "app \<Rightarrow> summary_result" where
  "summary st =
     (case summary_loop (catalog st) (selections st) (0, 0) of
        (plannedEcts, completedEcts) \<Rightarrow>
          \<lparr>s_planned_ects = plannedEcts, s_completed_ects = completedEcts,
           s_progress = of_int plannedEcts / 120\<rparr>)"














subsection \<open>\<^verbatim>\<open>parseInt\<close>\<close>

text \<open>
  \<^verbatim>\<open>parseInt(x)\<close> with no radix, as ECMAScript defines it: \<^verbatim>\<open>x\<close> is converted to
  a string, leading white space is dropped, a sign is read, a prefix \<^verbatim>\<open>0x\<close> or
  \<^verbatim>\<open>0X\<close> selects radix 16, and the longest run of digits of the radix is the
  value; what follows the digits is ignored. With no digit the result is
  \<^verbatim>\<open>NaN\<close>, here \<^verbatim>\<open>None\<close>; so it is for \<^verbatim>\<open>undefined\<close> and \<^verbatim>\<open>null\<close>.

  White space is ECMAScript's \<^verbatim>\<open>WhiteSpace\<close> and \<^verbatim>\<open>LineTerminator\<close>: tab, line
  feed, vertical tab, form feed, carriage return, space, no-break space (U+00A0), the
  other space separators of Unicode (U+1680, U+2000 to U+200A, U+202F, U+205F, U+3000),
  the line and paragraph separators (U+2028, U+2029) and the byte order mark (U+FEFF).
\<close>

definition is_white_space :: "code_unit \<Rightarrow> bool" where
  "is_white_space c =
     (c \<in> set [0x0009, 0x000A, 0x000B, 0x000C, 0x000D, 0x0020, 0x00A0, 0x1680,
                0x2000, 0x2001, 0x2002, 0x2003, 0x2004, 0x2005, 0x2006, 0x2007, 0x2008,
                0x2009, 0x200A, 0x2028, 0x2029, 0x202F, 0x205F, 0x3000, 0xFEFF])"

text \<open>The value of a digit or letter: \<^verbatim>\<open>0\<close> to \<^verbatim>\<open>9\<close>, \<^verbatim>\<open>a\<close> to \<^verbatim>\<open>z\<close>, \<^verbatim>\<open>A\<close> to \<^verbatim>\<open>Z\<close>.\<close>

definition digit_value :: "code_unit \<Rightarrow> nat option" where
  "digit_value k =
     (if 48 \<le> k \<and> k \<le> 57 then Some (k - 48)
      else if 97 \<le> k \<and> k \<le> 122 then Some (k - 87)
      else if 65 \<le> k \<and> k \<le> 90 then Some (k - 55)
      else None)"

text \<open>The value of the longest prefix of digits; \<^verbatim>\<open>acc\<close> is \<^verbatim>\<open>None\<close> until a digit is read.\<close>

fun parse_digits :: "nat \<Rightarrow> nat option \<Rightarrow> code_unit list \<Rightarrow> nat option" where
  "parse_digits radix acc [] = acc"
| "parse_digits radix acc (c # cs) =
     (case digit_value c of
        None \<Rightarrow> acc
      | Some d \<Rightarrow>
          if d < radix
          then parse_digits radix (Some (radix * (case acc of None \<Rightarrow> 0 | Some a \<Rightarrow> a) + d)) cs
          else acc)"

text \<open>A leading \<^verbatim>\<open>-\<close> (code unit 45) or \<^verbatim>\<open>+\<close> (code unit 43).\<close>

definition strip_sign :: "code_unit list \<Rightarrow> int \<times> code_unit list" where
  "strip_sign s =
     (case s of
        [] \<Rightarrow> (1, [])
      | c # cs \<Rightarrow> if c = 45 then (- 1, cs) else if c = 43 then (1, cs) else (1, s))"

definition strip_radix_prefix :: "code_unit list \<Rightarrow> nat \<times> code_unit list" where
  "strip_radix_prefix s =
     (if take 2 s = code_units ''0x'' \<or> take 2 s = code_units ''0X'' then (16, drop 2 s)
      else (10, s))"

definition parseInt :: "code_unit list option \<Rightarrow> int option" where
  "parseInt x =
     (case x of
        None \<Rightarrow> None
      | Some inputString \<Rightarrow>
          (case strip_sign (dropWhile is_white_space inputString) of
             (sign, s) \<Rightarrow>
               (case strip_radix_prefix s of
                  (radix, z) \<Rightarrow> map_option (\<lambda>n. sign * int n) (parse_digits radix None z))))"

subsection \<open>The actions\<close>

text \<open>
  Each action returns the alerts it raised and the state it leaves. An early
  \<^verbatim>\<open>return\<close> of the source is a branch that returns the state as it was.
\<close>

definition new_selection :: "string \<Rightarrow> string \<Rightarrow> int option \<Rightarrow> selection" where
  "new_selection courseId selectionId ects' =
     \<lparr>course_id = courseId, status = ''planned'', selection_id = selectionId, ects = ects'\<rparr>"

definition planCourse :: "browser \<Rightarrow> app \<Rightarrow> string \<Rightarrow> alert list \<times> app" where
  "planCourse b st courseId =
     (case find_course (catalog st) courseId of
        None \<Rightarrow> ([], st)
      | Some course \<Rightarrow>
          if list_ex (\<lambda>s. course_id s = courseId) (selections st) then ([], st)
          else if c_is_additional_course course then ([Enter_ects_ac], st)
          else
            (let sels = selections st @ [new_selection courseId (generateSelectionId b) None]
             in (case saveSelectionsToStorage b sels (localStorage st) of
                   (alerts, item) \<Rightarrow> (alerts, st\<lparr>selections := sels, localStorage := item\<rparr>))))"

text \<open>
  The credit already planned for a course:
  \<^verbatim>\<open>selections.filter(s => s.course_id === courseId).reduce((sum, s) => sum + (s.ects || 0), 0)\<close>.
\<close>

definition plannedEcts_of :: "selection list \<Rightarrow> string \<Rightarrow> int" where
  "plannedEcts_of sels courseId =
     foldl (\<lambda>sum s. sum + js_or_num (ects s) 0) 0 (filter (\<lambda>s. course_id s = courseId) sels)"

definition addAdditionalCourse :: "browser \<Rightarrow> app \<Rightarrow> string \<Rightarrow> alert list \<times> app" where
  "addAdditionalCourse b st courseId =
     (case find_course (catalog st) courseId of
        None \<Rightarrow> ([], st)
      | Some course \<Rightarrow>
          if \<not> c_is_additional_course course then ([], st)
          else
            (case parseInt (credit_input st courseId) of
               None \<Rightarrow> ([Enter_ects], st)
             | Some ects' \<Rightarrow>
                 if ects' = 0 \<or> ects' < 1 then ([Enter_ects], st)
                 else
                   (let remaining = js_or_num (c_max_ects course) 18
                                      - plannedEcts_of (selections st) courseId
                    in if ects' > remaining then ([Max_ects_available remaining], st)
                       else
                         (let sels = selections st
                                       @ [new_selection courseId (generateSelectionId b) (Some ects')]
                          in (case saveSelectionsToStorage b sels (localStorage st) of
                                (alerts, item) \<Rightarrow>
                                  (alerts,
                                   st\<lparr>selections := sels,
                                      additionalCourseEcts := (additionalCourseEcts st)(courseId := None),
                                      localStorage := item\<rparr>))))))"

definition removeCourse :: "browser \<Rightarrow> app \<Rightarrow> string \<Rightarrow> string option \<Rightarrow> alert list \<times> app" where
  "removeCourse b st courseId selectionId =
     (let sels = (if truthy_str selectionId
                  then filter (\<lambda>s. Some (selection_id s) \<noteq> selectionId) (selections st)
                  else filter (\<lambda>s. course_id s \<noteq> courseId) (selections st))
      in (case saveSelectionsToStorage b sels (localStorage st) of
            (alerts, item) \<Rightarrow> (alerts, st\<lparr>selections := sels, localStorage := item\<rparr>)))"

definition toggle_status :: "selection \<Rightarrow> selection" where
  "toggle_status sel = sel\<lparr>status := (if status sel = ''completed'' then ''planned'' else ''completed'')\<rparr>"

text \<open>The loop of \<^verbatim>\<open>toggleCompleted\<close>: the first match is flipped, then \<^verbatim>\<open>break\<close>.\<close>

fun toggle_loop :: "string \<Rightarrow> string option \<Rightarrow> selection list \<Rightarrow> selection list" where
  "toggle_loop courseId selectionId [] = []"
| "toggle_loop courseId selectionId (sel # rest) =
     (if truthy_str selectionId \<and> Some (selection_id sel) = selectionId
      then toggle_status sel # rest
      else if \<not> truthy_str selectionId \<and> course_id sel = courseId
      then toggle_status sel # rest
      else sel # toggle_loop courseId selectionId rest)"

definition toggleCompleted :: "browser \<Rightarrow> app \<Rightarrow> string \<Rightarrow> string option \<Rightarrow> alert list \<times> app" where
  "toggleCompleted b st courseId selectionId =
     (let sels = toggle_loop courseId selectionId (selections st)
      in (case saveSelectionsToStorage b sels (localStorage st) of
            (alerts, item) \<Rightarrow> (alerts, st\<lparr>selections := sels, localStorage := item\<rparr>)))"

definition removeAllPlanned :: "browser \<Rightarrow> app \<Rightarrow> alert list \<times> app" where
  "removeAllPlanned b st =
     (if \<not> confirm_answer b then ([], st)
      else (case saveSelectionsToStorage b [] (localStorage st) of
              (alerts, item) \<Rightarrow> (alerts, st\<lparr>selections := [], localStorage := item\<rparr>)))"


text \<open>
  \<^verbatim>\<open>importLocalData\<close> with the \<^verbatim>\<open>onload\<close> handler of its reader: \<^verbatim>\<open>file\<close> is the
  text of \<^verbatim>\<open>event.target.files[0]\<close>, \<^verbatim>\<open>None\<close> when no file was chosen.
\<close>

definition importLocalData :: "browser \<Rightarrow> app \<Rightarrow> stored_text option \<Rightarrow> alert list \<times> app" where
  "importLocalData b st file =
     (case file of
        None \<Rightarrow> ([], st)
      | Some result \<Rightarrow>
          (case JSON_parse result of
             None \<Rightarrow> ([Import_error], st)
           | Some JsonNull \<Rightarrow> ([Import_error], st)
           | Some JsonOther \<Rightarrow> ([Invalid_file], st)
           | Some (JsonObject data) \<Rightarrow>
               (case e_selections data of
                  None \<Rightarrow> ([Invalid_file], st)
                | Some sels \<Rightarrow>
                    if confirm_answer b
                    then (case saveSelectionsToStorage b sels (localStorage st) of
                            (alerts, item) \<Rightarrow> (alerts, st\<lparr>selections := sels, localStorage := item\<rparr>))
                    else ([], st))))"

subsection \<open>Runs of the planner\<close>

text \<open>
  The user's actions on the selection list. \<^verbatim>\<open>EnterEcts\<close> types a text into the
  credit input of a course.
\<close>

datatype action =
    PlanCourse string
  | EnterEcts string "code_unit list"
  | AddAdditionalCourse string
  | RemoveCourse string "string option"
  | ToggleCompleted string "string option"
  | RemoveAllPlanned
  | ImportLocalData "stored_text option"

fun perform :: "browser \<Rightarrow> app \<Rightarrow> action \<Rightarrow> alert list \<times> app" where
  "perform b st (PlanCourse courseId) = planCourse b st courseId"
| "perform b st (EnterEcts courseId input) = ([], set_credit_input st courseId input)"
| "perform b st (AddAdditionalCourse courseId) = addAdditionalCourse b st courseId"
| "perform b st (RemoveCourse courseId selectionId) = removeCourse b st courseId selectionId"
| "perform b st (ToggleCompleted courseId selectionId) = toggleCompleted b st courseId selectionId"
| "perform b st RemoveAllPlanned = removeAllPlanned b st"
| "perform b st (ImportLocalData file) = importLocalData b st file"

text \<open>A run: each action with what the browser answers while it runs.\<close>

fun run :: "app \<Rightarrow> (browser \<times> action) list \<Rightarrow> app" where
  "run st [] = st"
| "run st ((b, a) # steps) = run (snd (perform b st a)) steps"

subsection \<open>The notions of the specification\<close>

text \<open>
  A course id references a fixed-credit course when the catalog entry it finds is not
  an Additional Course.
\<close>

definition references_fixed_credit :: "course list \<Rightarrow> string \<Rightarrow> bool" where
  "references_fixed_credit cat courseId =
     (case find_course cat courseId of None \<Rightarrow> False | Some c \<Rightarrow> \<not> c_is_additional_course c)"

text \<open>The invariant: at most one selection references any fixed-credit course.\<close>

definition fixed_credit_unique :: "course list \<Rightarrow> selection list \<Rightarrow> bool" where
  "fixed_credit_unique cat sels =
     (\<forall>s \<in> set sels. references_fixed_credit cat (course_id s) \<longrightarrow>
        length (filter (\<lambda>t. course_id t = course_id s) sels) \<le> 1)"

text \<open>The selection list a backup file holds, if it is the JSON text of an envelope with one.\<close>

definition backup_selections :: "stored_text option \<Rightarrow> selection list option" where
  "backup_selections file =
     (case file of
        Some (JsonText (JsonObject data)) \<Rightarrow> e_selections data
      | _ \<Rightarrow> None)"

text \<open>An action other than the import of a backup whose list breaks the invariant.\<close>

definition keeps_fixed_credit_unique :: "course list \<Rightarrow> action \<Rightarrow> bool" where
  "keeps_fixed_credit_unique cat a =
     (case a of
        ImportLocalData file \<Rightarrow>
          (case backup_selections file of None \<Rightarrow> True | Some sels \<Rightarrow> fixed_credit_unique cat sels)
      | _ \<Rightarrow> True)"

text \<open>
  The effective credit of a selection in the specification's words: its \<^verbatim>\<open>ects\<close> if
  non-null, else the fixed \<^verbatim>\<open>ects\<close> of the course it references (nothing when there
  is none).
\<close>

definition course_credit :: "course list \<Rightarrow> string \<Rightarrow> int" where
  "course_credit cat courseId =
     (case find_course cat courseId of
        None \<Rightarrow> 0
      | Some c \<Rightarrow> (case c_ects c of None \<Rightarrow> 0 | Some k \<Rightarrow> k))"

definition spec_effective_credit :: "course list \<Rightarrow> selection \<Rightarrow> int" where
  "spec_effective_credit cat sel =
     (case ects sel of Some e \<Rightarrow> e | None \<Rightarrow> course_credit cat (course_id sel))"

text \<open>
  The effective credit the getters count: the selection's \<^verbatim>\<open>ects\<close> if it is neither
  null nor zero, else the course's.
\<close>

definition effective_credit :: "course list \<Rightarrow> selection \<Rightarrow> int" where
  "effective_credit cat sel =
     (case ects sel of
        None \<Rightarrow> course_credit cat (course_id sel)
      | Some e \<Rightarrow> if e = 0 then course_credit cat (course_id sel) else e)"

text \<open>The credit committed to a course: the sum of the \<^verbatim>\<open>ects\<close> of its selections.\<close>

definition committed_credit :: "selection list \<Rightarrow> string \<Rightarrow> int" where
  "committed_credit sels courseId =
     (\<Sum>s \<leftarrow> filter (\<lambda>s. course_id s = courseId) sels. (case ects s of None \<Rightarrow> 0 | Some e \<Rightarrow> e))"


subsection \<open>Sample data for the closed instances\<close>

text \<open>A fixed-credit course, an Additional Course with a cap, a state and a browser.\<close>

definition fixed_course :: "string \<Rightarrow> int \<Rightarrow> course" where
  "fixed_course courseId k =
     \<lparr>c_id = courseId, c_ects = Some k, c_is_additional_course = False,
      c_max_ects = None, c_area_id = Some ''fundamentals''\<rparr>"

definition additional_course :: "string \<Rightarrow> int option \<Rightarrow> course" where
  "additional_course courseId cap =
     \<lparr>c_id = courseId, c_ects = None, c_is_additional_course = True,
      c_max_ects = cap, c_area_id = Some ''additional''\<rparr>"

definition app_of :: "course list \<Rightarrow> selection list \<Rightarrow> app" where
  "app_of cat sels =
     \<lparr>catalog = cat, rules = None, selections = sels,
      additionalCourseEcts = Map.empty, localStorage = None\<rparr>"

definition browser_at :: "nat \<Rightarrow> string \<Rightarrow> browser" where
  "browser_at now random36 =
     \<lparr>date_now = now, date_iso = ''2024-10-01T08:00:00.000Z'', math_random_36 = random36,
      confirm_answer = True, setItem_ok = True\<rparr>"

section \<open>Properties\<close>

subsection \<open>The credit input\<close>

lemma credit_input_own [simp]:
  "courseId \<noteq> ''__proto__'' \<Longrightarrow> credit_input st courseId = additionalCourseEcts st courseId"
  by (simp add: credit_input_def)

lemma credit_input_proto [simp]: "credit_input st ''__proto__'' = None"
  by (simp add: credit_input_def)

lemma set_credit_input_own:
  "courseId \<noteq> ''__proto__'' \<Longrightarrow>
     set_credit_input st courseId input
       = st\<lparr>additionalCourseEcts := (additionalCourseEcts st)(courseId \<mapsto> input)\<rparr>"
  by (simp add: set_credit_input_def)

lemma set_credit_input_fields [simp]:
  "catalog (set_credit_input st courseId input) = catalog st"
  "selections (set_credit_input st courseId input) = selections st"
  "localStorage (set_credit_input st courseId input) = localStorage st"
  by (simp_all add: set_credit_input_def)

subsection \<open>Planning a course that is already selected\<close>

text \<open>
  C8. In every state in which some selection already references the given course,
  \<^verbatim>\<open>planCourse\<close> is a no-op: it raises no alert and returns the state as it was, the
  selection list and the stored item included. This holds for any course, so for a
  fixed-credit one.
\<close>

theorem planCourse_already_selected_noop:
  assumes "\<exists>s \<in> set (selections st). course_id s = courseId"
  shows "planCourse b st courseId = ([], st)"
proof (cases "find_course (catalog st) courseId")
  case None
  then show ?thesis by (simp add: planCourse_def)
next
  case (Some course)
  from assms have "list_ex (\<lambda>s. course_id s = courseId) (selections st)"
    by (simp add: list_ex_iff)
  with Some show ?thesis by (simp add: planCourse_def)
qed

theorem planCourse_already_selected_noop_witness:
  "(\<exists>s \<in> set (selections (app_of [fixed_course ''CS500'' 6]
                   [new_selection ''CS500'' ''sel_1_abc'' None])). course_id s = ''CS500'')
   \<and> find_course [fixed_course ''CS500'' 6] ''CS500'' = Some (fixed_course ''CS500'' 6)
   \<and> planCourse (browser_at 2 ''0.k3j2h1g0f9'')
        (app_of [fixed_course ''CS500'' 6] [new_selection ''CS500'' ''sel_1_abc'' None]) ''CS500''
     = ([], app_of [fixed_course ''CS500'' 6] [new_selection ''CS500'' ''sel_1_abc'' None])"
  using planCourse_already_selected_noop
    [of "app_of [fixed_course ''CS500'' 6] [new_selection ''CS500'' ''sel_1_abc'' None]"
        "''CS500''" "browser_at 2 ''0.k3j2h1g0f9''"]
  by (simp add: app_of_def new_selection_def find_course_def fixed_course_def)

subsection \<open>Removing by selection id\<close>

text \<open>
  C10, as the code has it. For every selection list and every selection id argument that is
  neither null nor the empty string, \<^verbatim>\<open>removeCourse\<close> leaves exactly the selections
  whose \<^verbatim>\<open>selection_id\<close> differs from the argument, in their order and unchanged;
  the course id argument plays no part, so a selection of another course is removed
  when its id matches.
\<close>

theorem removeCourse_by_selection_id:
  assumes "selectionId \<noteq> []"
  shows "selections (snd (removeCourse b st courseId (Some selectionId)))
           = filter (\<lambda>s. selection_id s \<noteq> selectionId) (selections st)"
  using assms by (simp add: removeCourse_def truthy_str_def Let_def split: prod.splits)

theorem removeCourse_by_selection_id_witness:
  "''sel_1_a'' \<noteq> []
   \<and> selections (snd (removeCourse (browser_at 3 ''0.zzz'')
        (app_of [fixed_course ''A'' 6, fixed_course ''B'' 8]
           [new_selection ''A'' ''sel_1_a'' None, new_selection ''B'' ''sel_2_b'' None])
        ''B'' (Some ''sel_1_a'')))
     = [new_selection ''B'' ''sel_2_b'' None]"
  using removeCourse_by_selection_id
    [of "''sel_1_a''" "browser_at 3 ''0.zzz''"
        "app_of [fixed_course ''A'' 6, fixed_course ''B'' 8]
           [new_selection ''A'' ''sel_1_a'' None, new_selection ''B'' ''sel_2_b'' None]" "''B''"]
  by (simp add: app_of_def new_selection_def)

text \<open>
  C10 as stated fails for the empty string, which is not null but is falsy: the test
  \<^verbatim>\<open>if (selectionId)\<close> sends it to the branch that removes by course id. No selection
  has the empty id here, so nothing should go; the selection of course \<^verbatim>\<open>B\<close> goes.
\<close>

theorem removeCourse_empty_selection_id_counterexample:
  "selections (snd (removeCourse (browser_at 3 ''0.zzz'')
        (app_of [fixed_course ''B'' 8] [new_selection ''B'' ''sel_2_b'' None])
        ''B'' (Some [])))
     = []
   \<and> filter (\<lambda>s. selection_id s \<noteq> []) [new_selection ''B'' ''sel_2_b'' None]
     = [new_selection ''B'' ''sel_2_b'' None]"
  by (simp add: removeCourse_def truthy_str_def app_of_def new_selection_def Let_def
      split: prod.splits)

text \<open>In general, the empty string is treated as a missing selection id.\<close>

lemma removeCourse_empty_selection_id:
  "removeCourse b st courseId (Some []) = removeCourse b st courseId None"
  by (simp add: removeCourse_def truthy_str_def)

subsection \<open>Loading from local storage\<close>

text \<open>
  C2, as the code has it. \<^verbatim>\<open>loadSelectionsFromStorage\<close> returns the empty list when the
  key is absent, when the stored text does not parse, and when it parses to
  \<^verbatim>\<open>null\<close> or to a value without selections. For an envelope it returns the stored
  selections whatever the version is: a version other than \<^verbatim>\<open>1.0\<close> is logged and the
  data is passed through unchanged.
\<close>

theorem loadSelectionsFromStorage_cases:
  "snd (loadSelectionsFromStorage None) = []
   \<and> (JSON_parse data = None \<longrightarrow> snd (loadSelectionsFromStorage (Some data)) = [])
   \<and> (JSON_parse data = Some JsonNull \<or> JSON_parse data = Some JsonOther \<longrightarrow>
        snd (loadSelectionsFromStorage (Some data)) = [])
   \<and> (JSON_parse data = Some (JsonObject parsed) \<longrightarrow>
        snd (loadSelectionsFromStorage (Some data))
          = (case e_selections parsed of None \<Rightarrow> [] | Some sels \<Rightarrow> sels)
        \<and> fst (loadSelectionsFromStorage (Some data))
          = (if e_version parsed = Some ''1.0'' then [] else [Version_mismatch]))"
  by (cases data) (auto simp add: loadSelectionsFromStorage_def JSON_parse_def STORAGE_VERSION_def)

theorem loadSelectionsFromStorage_cases_witness:
  "JSON_parse MalformedText = None
   \<and> snd (loadSelectionsFromStorage (Some MalformedText)) = []
   \<and> JSON_parse (JsonText JsonNull) = Some JsonNull
   \<and> snd (loadSelectionsFromStorage (Some (JsonText JsonNull))) = []
   \<and> JSON_parse (JsonText (JsonObject
         \<lparr>e_version = Some ''1.0'',
          e_selections = Some [new_selection ''CS500'' ''sel_1_abc'' None],
          e_lastModified = Some ''2024-09-30T10:00:00.000Z'', e_exportDate = None\<rparr>))
       = Some (JsonObject
         \<lparr>e_version = Some ''1.0'',
          e_selections = Some [new_selection ''CS500'' ''sel_1_abc'' None],
          e_lastModified = Some ''2024-09-30T10:00:00.000Z'', e_exportDate = None\<rparr>)
   \<and> loadSelectionsFromStorage (Some (JsonText (JsonObject
         \<lparr>e_version = Some ''1.0'',
          e_selections = Some [new_selection ''CS500'' ''sel_1_abc'' None],
          e_lastModified = Some ''2024-09-30T10:00:00.000Z'', e_exportDate = None\<rparr>)))
       = ([], [new_selection ''CS500'' ''sel_1_abc'' None])"
  using loadSelectionsFromStorage_cases [where data = MalformedText]
    loadSelectionsFromStorage_cases [where data = "JsonText JsonNull"]
    loadSelectionsFromStorage_cases
      [of "JsonText (JsonObject
         \<lparr>e_version = Some ''1.0'',
          e_selections = Some [new_selection ''CS500'' ''sel_1_abc'' None],
          e_lastModified = Some ''2024-09-30T10:00:00.000Z'', e_exportDate = None\<rparr>)"
        "\<lparr>e_version = Some ''1.0'',
          e_selections = Some [new_selection ''CS500'' ''sel_1_abc'' None],
          e_lastModified = Some ''2024-09-30T10:00:00.000Z'', e_exportDate = None\<rparr>"]
  by (simp add: JSON_parse_def prod_eq_iff)

text \<open>
  C2 as stated fails on a version mismatch: an envelope of version \<^verbatim>\<open>0.9\<close> with one
  selection loads as that selection, not as the empty list.
\<close>

theorem loadSelectionsFromStorage_version_mismatch_counterexample:
  "Some ''0.9'' \<noteq> Some STORAGE_VERSION
   \<and> loadSelectionsFromStorage (Some (JsonText (JsonObject
         \<lparr>e_version = Some ''0.9'',
          e_selections = Some [new_selection ''CS500'' ''sel_1_abc'' None],
          e_lastModified = Some ''2024-09-30T10:00:00.000Z'', e_exportDate = None\<rparr>)))
       = ([Version_mismatch], [new_selection ''CS500'' ''sel_1_abc'' None])"
  by (simp add: loadSelectionsFromStorage_def JSON_parse_def STORAGE_VERSION_def)

subsection \<open>Backup and restore\<close>



subsection \<open>The credit summary\<close>

lemma credit_counted:
  "js_or_num (js_or (ects sel)
       (case find_course cat (course_id sel) of None \<Rightarrow> None | Some c \<Rightarrow> c_ects c)) 0
     = effective_credit cat sel"
  by (simp add: js_or_num_def js_or_def effective_credit_def course_credit_def
      split: option.splits)

lemma summary_loop_sums:
  "summary_loop cat sels (p, c)
     = (p + (\<Sum>s \<leftarrow> sels. effective_credit cat s),
        c + (\<Sum>s \<leftarrow> filter (\<lambda>s. status s = ''completed'') sels. effective_credit cat s))"
proof (induction sels arbitrary: p c)
  case Nil
  show ?case by simp
next
  case (Cons sel rest)
  show ?case
    by (simp add: Let_def credit_counted Cons.IH)
qed

text \<open>
  Where no selection carries the credit \<^verbatim>\<open>0\<close>, the credit counted is the effective
  credit of the specification.
\<close>

lemma effective_credit_is_spec:
  "ects sel \<noteq> Some 0 \<Longrightarrow> effective_credit cat sel = spec_effective_credit cat sel"
  by (simp add: effective_credit_def spec_effective_credit_def split: option.splits)

text \<open>
  C5, as the code has it. For every catalog and every selection list,
  \<^verbatim>\<open>summary.planned_ects\<close> is the sum over all selections of the credit counted:
  the selection's \<^verbatim>\<open>ects\<close> if it is neither null nor zero, else the fixed
  \<^verbatim>\<open>ects\<close> of the course it references (zero when there is none);
  \<^verbatim>\<open>completed_ects\<close> is the same sum over the selections whose status is
  \<^verbatim>\<open>completed\<close>; and \<^verbatim>\<open>progress\<close> is \<^verbatim>\<open>planned_ects / 120\<close>, not clamped.
\<close>

theorem summary_sums_effective_credit:
  "s_planned_ects (summary st) = (\<Sum>s \<leftarrow> selections st. effective_credit (catalog st) s)
   \<and> s_completed_ects (summary st)
       = (\<Sum>s \<leftarrow> filter (\<lambda>s. status s = ''completed'') (selections st).
            effective_credit (catalog st) s)
   \<and> s_progress (summary st) = of_int (s_planned_ects (summary st)) / 120"
  by (simp add: summary_def summary_loop_sums)

text \<open>
  An instance: a completed fixed-credit course of 6 credits and an Additional Course
  selection of 130 credits (more than the program's 120) give the progress 17/15.
\<close>

theorem summary_sums_effective_credit_witness:
  "summary (app_of [fixed_course ''CS500'' 6, additional_course ''AC1'' (Some 18)]
      [\<lparr>course_id = ''CS500'', status = ''completed'', selection_id = ''sel_1_abc'', ects = None\<rparr>,
       \<lparr>course_id = ''AC1'', status = ''planned'', selection_id = ''sel_2_def'', ects = Some 130\<rparr>])
     = \<lparr>s_planned_ects = 136, s_completed_ects = 6, s_progress = 17 / 15\<rparr>"
  using summary_sums_effective_credit
    [of "app_of [fixed_course ''CS500'' 6, additional_course ''AC1'' (Some 18)]
      [\<lparr>course_id = ''CS500'', status = ''completed'', selection_id = ''sel_1_abc'', ects = None\<rparr>,
       \<lparr>course_id = ''AC1'', status = ''planned'', selection_id = ''sel_2_def'', ects = Some 130\<rparr>]"]
  by (simp add: app_of_def effective_credit_def course_credit_def find_course_def
      fixed_course_def additional_course_def summary_result.equality)

text \<open>
  C5 as stated fails for a selection whose \<^verbatim>\<open>ects\<close> is \<^verbatim>\<open>0\<close>: that is not null, so
  its effective credit is 0, but \<^verbatim>\<open>sel.ects || course?.ects || 0\<close> counts the 6
  credits of the course.
\<close>

theorem summary_zero_ects_counterexample:
  "s_planned_ects (summary (app_of
       [\<lparr>c_id = ''AC1'', c_ects = Some 6, c_is_additional_course = True,
         c_max_ects = Some 18, c_area_id = Some ''additional''\<rparr>]
       [new_selection ''AC1'' ''sel_1_abc'' (Some 0)])) = 6
   \<and> sum_list (map (spec_effective_credit
       [\<lparr>c_id = ''AC1'', c_ects = Some 6, c_is_additional_course = True,
         c_max_ects = Some 18, c_area_id = Some ''additional''\<rparr>])
       [new_selection ''AC1'' ''sel_1_abc'' (Some 0)]) = 0"
  by (simp add: summary_def app_of_def new_selection_def find_course_def js_or_def
      js_or_num_def spec_effective_credit_def)

subsection \<open>Progress by area\<close>














subsection \<open>Adding a variable-credit selection\<close>

lemma foldl_plus_sum_list:
  "foldl (\<lambda>sum s. sum + f s) a xs = a + sum_list (map f xs)" for a :: int
  by (induction xs arbitrary: a) simp_all

lemma ects_or_zero: "js_or_num (ects s) 0 = (case ects s of None \<Rightarrow> 0 | Some e \<Rightarrow> e)"
  by (simp add: js_or_num_def split: option.splits)

lemma plannedEcts_of_committed: "plannedEcts_of sels courseId = committed_credit sels courseId"
  by (simp add: plannedEcts_of_def committed_credit_def foldl_plus_sum_list ects_or_zero)

lemma addAdditionalCourse_invalid:
  assumes "find_course (catalog st) courseId = Some course" and "c_is_additional_course course"
    and "parseInt (credit_input st courseId) = None
         \<or> (\<exists>e. parseInt (credit_input st courseId) = Some e \<and> e < 1)"
  shows "addAdditionalCourse b st courseId = ([Enter_ects], st)"
  using assms by (auto simp add: addAdditionalCourse_def)

lemma addAdditionalCourse_full:
  assumes "find_course (catalog st) courseId = Some course" and "c_is_additional_course course"
    and "parseInt (credit_input st courseId) = Some e" and "1 \<le> e"
    and "js_or_num (c_max_ects course) 18 < committed_credit (selections st) courseId + e"
  shows "addAdditionalCourse b st courseId
           = ([Max_ects_available
                (js_or_num (c_max_ects course) 18 - committed_credit (selections st) courseId)], st)"
  using assms by (auto simp add: addAdditionalCourse_def Let_def plannedEcts_of_committed)

lemma addAdditionalCourse_accepted:
  assumes "find_course (catalog st) courseId = Some course" and "c_is_additional_course course"
    and "parseInt (credit_input st courseId) = Some e" and "1 \<le> e"
    and "committed_credit (selections st) courseId + e \<le> js_or_num (c_max_ects course) 18"
  shows "addAdditionalCourse b st courseId
           = (fst (saveSelectionsToStorage b
                 (selections st @ [new_selection courseId (generateSelectionId b) (Some e)])
                 (localStorage st)),
              st\<lparr>selections := selections st @ [new_selection courseId (generateSelectionId b) (Some e)],
                 additionalCourseEcts := (additionalCourseEcts st)(courseId := None),
                 localStorage := snd (saveSelectionsToStorage b
                 (selections st @ [new_selection courseId (generateSelectionId b) (Some e)])
                 (localStorage st))\<rparr>)"
  using assms
  by (auto simp add: addAdditionalCourse_def Let_def plannedEcts_of_committed split: prod.splits)

lemma addAdditionalCourse_selections:
  "selections (snd (addAdditionalCourse b st courseId)) = selections st
   \<or> (\<exists>e. parseInt (credit_input st courseId) = Some e \<and> 1 \<le> e
          \<and> selections (snd (addAdditionalCourse b st courseId))
              = selections st @ [new_selection courseId (generateSelectionId b) (Some e)])"
  by (auto simp add: addAdditionalCourse_def Let_def split: option.splits prod.splits)

lemma parseInt_10: "parseInt (Some (code_units ''10'')) = Some 10"
  by (simp add: parseInt_def code_units_def strip_sign_def strip_radix_prefix_def is_white_space_def
      digit_value_def)

lemma parseInt_9: "parseInt (Some (code_units ''9'')) = Some 9"
  by (simp add: parseInt_def code_units_def strip_sign_def strip_radix_prefix_def is_white_space_def
      digit_value_def)

lemma committed_credit_none:
  "\<forall>s \<in> set sels. course_id s \<noteq> courseId \<Longrightarrow> committed_credit sels courseId = 0"
  by (induction sels) (simp_all add: committed_credit_def)

lemma committed_credit_append:
  "committed_credit (xs @ ys) courseId = committed_credit xs courseId + committed_credit ys courseId"
  by (simp add: committed_credit_def)
text \<open>Leading white space is skipped, the no-break space included.\<close>

lemma parseInt_skips_white_space:
  "is_white_space c \<Longrightarrow> parseInt (Some (c # s)) = parseInt (Some s)"
  by (simp add: parseInt_def)

lemma parseInt_no_break_space: "parseInt (Some (0xA0 # code_units ''5'')) = Some 5"
  by (simp add: parseInt_def code_units_def strip_sign_def strip_radix_prefix_def
      is_white_space_def digit_value_def)

text \<open>
  C4, as the code has it. The requested amount is what \<^verbatim>\<open>parseInt\<close> reads from the
  credit input: after leading white space, an optional sign and the leading digits;
  what follows them is ignored. For an Additional Course, \<^verbatim>\<open>addAdditionalCourse\<close> raises the
  validation alert and leaves the state unchanged whenever \<^verbatim>\<open>parseInt\<close> reads no
  number or a number less than 1; and whenever the selection list changes, one
  selection was appended, carrying the integer read, which is at least 1.
\<close>

theorem addAdditionalCourse_validation:
  "(find_course (catalog st) courseId = Some course \<and> c_is_additional_course course
      \<and> (parseInt (credit_input st courseId) = None
           \<or> (\<exists>e. parseInt (credit_input st courseId) = Some e \<and> e < 1))
     \<longrightarrow> addAdditionalCourse b st courseId = ([Enter_ects], st))
   \<and> (selections (snd (addAdditionalCourse b st courseId)) \<noteq> selections st
     \<longrightarrow> (\<exists>e. parseInt (credit_input st courseId) = Some e \<and> 1 \<le> e
            \<and> selections (snd (addAdditionalCourse b st courseId))
                = selections st @ [new_selection courseId (generateSelectionId b) (Some e)]))"
  using addAdditionalCourse_invalid [of st courseId course b]
    addAdditionalCourse_selections [of b st courseId]
  by blast

text \<open>
  An instance: the input \<^verbatim>\<open>0\<close> is refused, the input \<^verbatim>\<open>4\<close> appends a selection of
  4 credits, and so does a no-break space followed by \<^verbatim>\<open>5\<close> with 5 credits.
\<close>

theorem addAdditionalCourse_validation_witness:
  "addAdditionalCourse (browser_at 5 ''0.abcdefghijk'')
      ((app_of [additional_course ''AC1'' (Some 18)] [])
         \<lparr>additionalCourseEcts := [''AC1'' \<mapsto> code_units ''0'']\<rparr>) ''AC1''
     = ([Enter_ects],
        (app_of [additional_course ''AC1'' (Some 18)] [])
          \<lparr>additionalCourseEcts := [''AC1'' \<mapsto> code_units ''0'']\<rparr>)
   \<and> selections (snd (addAdditionalCourse (browser_at 5 ''0.abcdefghijk'')
      ((app_of [additional_course ''AC1'' (Some 18)] [])
         \<lparr>additionalCourseEcts := [''AC1'' \<mapsto> code_units ''4'']\<rparr>) ''AC1''))
     = [new_selection ''AC1'' (generateSelectionId (browser_at 5 ''0.abcdefghijk'')) (Some 4)]
   \<and> selections (snd (addAdditionalCourse (browser_at 5 ''0.abcdefghijk'')
      ((app_of [additional_course ''AC1'' (Some 18)] [])
         \<lparr>additionalCourseEcts := [''AC1'' \<mapsto> 0xA0 # code_units ''5'']\<rparr>) ''AC1''))
     = [new_selection ''AC1'' (generateSelectionId (browser_at 5 ''0.abcdefghijk'')) (Some 5)]"
proof -
  let ?b = "browser_at 5 ''0.abcdefghijk''"
  let ?st = "\<lambda>input. (app_of [additional_course ''AC1'' (Some 18)] [])
                       \<lparr>additionalCourseEcts := [''AC1'' \<mapsto> input]\<rparr>"
  have zero: "parseInt (Some (code_units ''0'')) = Some 0"
    by (simp add: parseInt_def code_units_def strip_sign_def strip_radix_prefix_def
        is_white_space_def digit_value_def)
  have four: "parseInt (Some (code_units ''4'')) = Some 4"
    by (simp add: parseInt_def code_units_def strip_sign_def strip_radix_prefix_def
        is_white_space_def digit_value_def)
  have five: "parseInt (Some (0xA0 # code_units ''5'')) = Some 5"
    by (rule parseInt_no_break_space)
  have refused: "addAdditionalCourse ?b (?st (code_units ''0'')) ''AC1''
                   = ([Enter_ects], ?st (code_units ''0''))"
    using addAdditionalCourse_validation
      [of "?st (code_units ''0'')" "''AC1''" "additional_course ''AC1'' (Some 18)" ?b]
    by (simp add: app_of_def additional_course_def find_course_def zero)
  have changed: "selections (snd (addAdditionalCourse ?b (?st input) ''AC1''))
                   \<noteq> selections (?st input)"
    if "parseInt (Some input) = Some e" and "1 \<le> e" and "e \<le> 18" for input e
    using that
    by (simp add: addAdditionalCourse_def app_of_def additional_course_def find_course_def
        plannedEcts_of_def js_or_num_def Let_def split: prod.splits)
  have accepted4: "selections (snd (addAdditionalCourse ?b (?st (code_units ''4'')) ''AC1''))
                     = [new_selection ''AC1'' (generateSelectionId ?b) (Some 4)]"
    using addAdditionalCourse_validation
      [of "?st (code_units ''4'')" "''AC1''" "additional_course ''AC1'' (Some 18)" ?b]
      changed [OF four]
    by (simp add: app_of_def four)
  have accepted5: "selections (snd (addAdditionalCourse ?b (?st (0xA0 # code_units ''5'')) ''AC1''))
                     = [new_selection ''AC1'' (generateSelectionId ?b) (Some 5)]"
    using addAdditionalCourse_validation
      [of "?st (0xA0 # code_units ''5'')" "''AC1''" "additional_course ''AC1'' (Some 18)" ?b]
      changed [OF five]
    by (simp add: app_of_def five)
  show ?thesis
    by (intro conjI refused accepted4 accepted5)
qed

text \<open>
  C4 as stated fails for an amount that is not an integer: \<^verbatim>\<open>parseInt\<close> reads
  \<^verbatim>\<open>3.7\<close> as 3, no alert is raised and a selection of 3 credits is created.
\<close>

theorem addAdditionalCourse_fraction_counterexample:
  "parseInt (Some (code_units ''3.7'')) = Some 3
   \<and> fst (addAdditionalCourse (browser_at 5 ''0.abcdefghijk'')
      ((app_of [additional_course ''AC1'' (Some 18)] [])
         \<lparr>additionalCourseEcts := [''AC1'' \<mapsto> code_units ''3.7'']\<rparr>) ''AC1'') = []
   \<and> map ects (selections (snd (addAdditionalCourse (browser_at 5 ''0.abcdefghijk'')
      ((app_of [additional_course ''AC1'' (Some 18)] [])
         \<lparr>additionalCourseEcts := [''AC1'' \<mapsto> code_units ''3.7'']\<rparr>) ''AC1''))) = [Some 3]"
proof -
  have fraction: "parseInt (Some (code_units ''3.7'')) = Some 3"
    by (simp add: parseInt_def code_units_def strip_sign_def strip_radix_prefix_def is_white_space_def
        digit_value_def)
  then show ?thesis
    by (simp add: addAdditionalCourse_def app_of_def additional_course_def find_course_def
        plannedEcts_of_def js_or_num_def Let_def saveSelectionsToStorage_def browser_at_def
        new_selection_def)
qed

text \<open>
  C3, as the code has it. The cap of an Additional Course is its \<^verbatim>\<open>max_ects\<close>, or 18
  when that is missing or zero. Whenever the amount read, added to the credit committed
  to the course, exceeds the cap, \<^verbatim>\<open>addAdditionalCourse\<close> raises the alert that names
  the remaining headroom and leaves the state unchanged. In particular, for a course
  with \<^verbatim>\<open>max_ects\<close> 18 and no selection yet, entering 10 and adding, then entering 9 and
  adding, refuses the second call with the headroom 8, and the selection list holds the
  first selection only, after those it held before. The course id is not
  \<^verbatim>\<open>__proto__\<close>: under that name the credit input cannot be stored.
\<close>

theorem addAdditionalCourse_capacity:
  "(find_course (catalog st) courseId = Some course \<and> c_is_additional_course course
      \<and> parseInt (credit_input st courseId) = Some e \<and> 1 \<le> e
      \<and> js_or_num (c_max_ects course) 18 < committed_credit (selections st) courseId + e
     \<longrightarrow> addAdditionalCourse b st courseId
           = ([Max_ects_available
                 (js_or_num (c_max_ects course) 18 - committed_credit (selections st) courseId)],
              st))
   \<and> (find_course (catalog st) courseId = Some course \<and> c_is_additional_course course
      \<and> c_max_ects course = Some 18 \<and> (\<forall>s \<in> set (selections st). course_id s \<noteq> courseId)
      \<and> courseId \<noteq> ''__proto__''
     \<longrightarrow> perform bd
           (run st [(ba, EnterEcts courseId (code_units ''10'')), (bb, AddAdditionalCourse courseId),
                    (bc, EnterEcts courseId (code_units ''9''))])
           (AddAdditionalCourse courseId)
           = ([Max_ects_available 8],
              run st [(ba, EnterEcts courseId (code_units ''10'')), (bb, AddAdditionalCourse courseId),
                      (bc, EnterEcts courseId (code_units ''9''))])
         \<and> selections
             (run st [(ba, EnterEcts courseId (code_units ''10'')), (bb, AddAdditionalCourse courseId),
                      (bc, EnterEcts courseId (code_units ''9''))])
           = selections st @ [new_selection courseId (generateSelectionId bb) (Some 10)])"
proof (intro conjI impI)
  assume "find_course (catalog st) courseId = Some course \<and> c_is_additional_course course
      \<and> parseInt (credit_input st courseId) = Some e \<and> 1 \<le> e
      \<and> js_or_num (c_max_ects course) 18 < committed_credit (selections st) courseId + e"
  then show "addAdditionalCourse b st courseId
           = ([Max_ects_available
                 (js_or_num (c_max_ects course) 18 - committed_credit (selections st) courseId)],
              st)"
    using addAdditionalCourse_full [of st courseId course e b] by blast
next
  assume a: "find_course (catalog st) courseId = Some course \<and> c_is_additional_course course
      \<and> c_max_ects course = Some 18 \<and> (\<forall>s \<in> set (selections st). course_id s \<noteq> courseId)
      \<and> courseId \<noteq> ''__proto__''"
  define st0 where "st0 = st\<lparr>additionalCourseEcts := (additionalCourseEcts st)(courseId \<mapsto> code_units ''10'')\<rparr>"
  define sels where "sels = selections st @ [new_selection courseId (generateSelectionId bb) (Some 10)]"
  define st1 where "st1 = snd (addAdditionalCourse bb st0 courseId)"
  define st2 where "st2 = st1\<lparr>additionalCourseEcts := (additionalCourseEcts st1)(courseId \<mapsto> code_units ''9'')\<rparr>"
  have run_eq: "run st [(ba, EnterEcts courseId (code_units ''10'')), (bb, AddAdditionalCourse courseId),
                      (bc, EnterEcts courseId (code_units ''9''))] = st2"
    using a by (simp add: st0_def st1_def st2_def set_credit_input_own)
  have none: "committed_credit (selections st) courseId = 0"
    using a by (simp add: committed_credit_none)
  have first: "addAdditionalCourse bb st0 courseId
           = (fst (saveSelectionsToStorage bb sels (localStorage st0)),
              st0\<lparr>selections := sels,
                  additionalCourseEcts := (additionalCourseEcts st0)(courseId := None),
                  localStorage := snd (saveSelectionsToStorage bb sels (localStorage st0))\<rparr>)"
    unfolding sels_def
    using a addAdditionalCourse_accepted [of st0 courseId course 10 bb]
    by (simp add: st0_def parseInt_10 js_or_num_def none)
  have sels1: "selections st1 = sels"
    by (simp add: st1_def first)
  have cat1: "catalog st1 = catalog st"
    by (simp add: st1_def first) (simp add: st0_def)
  have committed: "committed_credit (selections st1) courseId = 10"
    by (simp add: sels1 sels_def committed_credit_append none)
      (simp add: committed_credit_def new_selection_def)
  have second: "addAdditionalCourse bd st2 courseId = ([Max_ects_available 8], st2)"
    using a addAdditionalCourse_full [of st2 courseId course 9 bd]
    by (simp add: st2_def cat1 parseInt_9 js_or_num_def committed)
  show "perform bd
           (run st [(ba, EnterEcts courseId (code_units ''10'')), (bb, AddAdditionalCourse courseId),
                    (bc, EnterEcts courseId (code_units ''9''))])
           (AddAdditionalCourse courseId)
           = ([Max_ects_available 8],
              run st [(ba, EnterEcts courseId (code_units ''10'')), (bb, AddAdditionalCourse courseId),
                      (bc, EnterEcts courseId (code_units ''9''))])"
    by (simp only: run_eq perform.simps second)
  show "selections
             (run st [(ba, EnterEcts courseId (code_units ''10'')), (bb, AddAdditionalCourse courseId),
                      (bc, EnterEcts courseId (code_units ''9''))])
           = selections st @ [new_selection courseId (generateSelectionId bb) (Some 10)]"
    by (simp only: run_eq) (simp add: st2_def sels1 sels_def)
qed
text \<open>
  An instance: with 10 credits committed and the cap 18, a request of 9 is refused with
  the headroom 8; and the two calls on an empty selection list.
\<close>

theorem addAdditionalCourse_capacity_witness:
  "addAdditionalCourse (browser_at 7 ''0.zyxwvutsrqp'')
      ((app_of [additional_course ''AC1'' (Some 18)] [new_selection ''AC1'' ''sel_5_abcdefghi'' (Some 10)])
         \<lparr>additionalCourseEcts := [''AC1'' \<mapsto> code_units ''9'']\<rparr>) ''AC1''
     = ([Max_ects_available 8],
        (app_of [additional_course ''AC1'' (Some 18)] [new_selection ''AC1'' ''sel_5_abcdefghi'' (Some 10)])
          \<lparr>additionalCourseEcts := [''AC1'' \<mapsto> code_units ''9'']\<rparr>)
   \<and> fst (perform (browser_at 7 ''0.zyxwvutsrqp'')
           (run (app_of [additional_course ''AC1'' (Some 18)] [])
              [(browser_at 4 ''0.a'', EnterEcts ''AC1'' (code_units ''10'')),
               (browser_at 5 ''0.abcdefghijk'', AddAdditionalCourse ''AC1''),
               (browser_at 6 ''0.b'', EnterEcts ''AC1'' (code_units ''9''))])
           (AddAdditionalCourse ''AC1''))
       = [Max_ects_available 8]
   \<and> selections
         (run (app_of [additional_course ''AC1'' (Some 18)] [])
            [(browser_at 4 ''0.a'', EnterEcts ''AC1'' (code_units ''10'')),
             (browser_at 5 ''0.abcdefghijk'', AddAdditionalCourse ''AC1''),
             (browser_at 6 ''0.b'', EnterEcts ''AC1'' (code_units ''9''))])
       = [new_selection ''AC1'' (generateSelectionId (browser_at 5 ''0.abcdefghijk'')) (Some 10)]"
  using addAdditionalCourse_capacity
      [where st = "(app_of [additional_course ''AC1'' (Some 18)]
                      [new_selection ''AC1'' ''sel_5_abcdefghi'' (Some 10)])
                    \<lparr>additionalCourseEcts := [''AC1'' \<mapsto> code_units ''9'']\<rparr>"
         and courseId = "''AC1''" and course = "additional_course ''AC1'' (Some 18)"
         and e = 9 and b = "browser_at 7 ''0.zyxwvutsrqp''"]
    addAdditionalCourse_capacity
      [where st = "app_of [additional_course ''AC1'' (Some 18)] []"
         and courseId = "''AC1''" and course = "additional_course ''AC1'' (Some 18)"
         and ba = "browser_at 4 ''0.a''" and bb = "browser_at 5 ''0.abcdefghijk''"
         and bc = "browser_at 6 ''0.b''" and bd = "browser_at 7 ''0.zyxwvutsrqp''"]
  by (simp add: app_of_def additional_course_def find_course_def parseInt_9 js_or_num_def
      committed_credit_def new_selection_def)

text \<open>
  C3 as stated fails in two ways. For a course whose \<^verbatim>\<open>max_ects\<close> is 0,
  \<^verbatim>\<open>(course.max_ects || 18)\<close> takes 18 for the cap, so a request of 5 credits is
  accepted although it pushes the committed credit above 0. And for an Additional Course
  whose id is \<^verbatim>\<open>__proto__\<close>, with \<^verbatim>\<open>max_ects\<close> 18 and no selection, the text 10 typed
  into the credit input is not stored, so already the first call is refused with the
  validation alert and no selection is created.
\<close>

theorem addAdditionalCourse_capacity_counterexample:
  "c_max_ects (additional_course ''AC1'' (Some 0)) = Some 0
   \<and> parseInt (Some (code_units ''5'')) = Some 5
   \<and> fst (addAdditionalCourse (browser_at 5 ''0.abcdefghijk'')
      ((app_of [additional_course ''AC1'' (Some 0)] [])
         \<lparr>additionalCourseEcts := [''AC1'' \<mapsto> code_units ''5'']\<rparr>) ''AC1'') = []
   \<and> map ects (selections (snd (addAdditionalCourse (browser_at 5 ''0.abcdefghijk'')
      ((app_of [additional_course ''AC1'' (Some 0)] [])
         \<lparr>additionalCourseEcts := [''AC1'' \<mapsto> code_units ''5'']\<rparr>) ''AC1''))) = [Some 5]
   \<and> perform (browser_at 5 ''0.abcdefghijk'')
        (run (app_of [additional_course ''__proto__'' (Some 18)] [])
           [(browser_at 4 ''0.a'', EnterEcts ''__proto__'' (code_units ''10''))])
        (AddAdditionalCourse ''__proto__'')
     = ([Enter_ects], app_of [additional_course ''__proto__'' (Some 18)] [])"
proof -
  have five: "parseInt (Some (code_units ''5'')) = Some 5"
    by (simp add: parseInt_def code_units_def strip_sign_def strip_radix_prefix_def
        is_white_space_def digit_value_def)
  have proto: "perform (browser_at 5 ''0.abcdefghijk'')
        (run (app_of [additional_course ''__proto__'' (Some 18)] [])
           [(browser_at 4 ''0.a'', EnterEcts ''__proto__'' (code_units ''10''))])
        (AddAdditionalCourse ''__proto__'')
     = ([Enter_ects], app_of [additional_course ''__proto__'' (Some 18)] [])"
    by (simp add: set_credit_input_def addAdditionalCourse_def app_of_def additional_course_def
        find_course_def parseInt_def)
  have cap: "c_max_ects (additional_course ''AC1'' (Some 0)) = Some 0"
    by (simp add: additional_course_def)
  have quiet: "fst (addAdditionalCourse (browser_at 5 ''0.abcdefghijk'')
      ((app_of [additional_course ''AC1'' (Some 0)] [])
         \<lparr>additionalCourseEcts := [''AC1'' \<mapsto> code_units ''5'']\<rparr>) ''AC1'') = []"
    using five
    by (simp add: addAdditionalCourse_def app_of_def additional_course_def find_course_def
        plannedEcts_of_def js_or_num_def Let_def saveSelectionsToStorage_def browser_at_def)
  have created: "map ects (selections (snd (addAdditionalCourse (browser_at 5 ''0.abcdefghijk'')
      ((app_of [additional_course ''AC1'' (Some 0)] [])
         \<lparr>additionalCourseEcts := [''AC1'' \<mapsto> code_units ''5'']\<rparr>) ''AC1''))) = [Some 5]"
    using five
    by (simp add: addAdditionalCourse_def app_of_def additional_course_def find_course_def
        plannedEcts_of_def js_or_num_def Let_def saveSelectionsToStorage_def browser_at_def
        new_selection_def)
  show ?thesis
    by (intro conjI cap five quiet created proto)
qed

subsection \<open>Planning a fixed-credit course\<close>

lemma generateSelectionId_sample:
  "generateSelectionId (browser_at 5 ''0.abcdefghijk'') = ''sel_5_abcdefghi''"
  by code_simp

text \<open>
  C7, as the code has it. For every course id that finds a fixed-credit course and that no
  selection references, \<^verbatim>\<open>planCourse\<close> appends exactly one selection, with the
  status \<^verbatim>\<open>planned\<close>, no credit of its own and the id \<^verbatim>\<open>generateSelectionId\<close> builds
  from the clock and the random number; the selections held before are unchanged. When
  the storage write succeeds no alert is raised and loading the stored item gives the
  updated list; when it fails the user is alerted and the stored item stays as it was.
\<close>

theorem planCourse_appends_selection:
  assumes "find_course (catalog st) courseId = Some course"
    and "\<not> c_is_additional_course course"
    and "\<forall>s \<in> set (selections st). course_id s \<noteq> courseId"
  shows "selections (snd (planCourse b st courseId))
           = selections st
             @ [\<lparr>course_id = courseId, status = ''planned'',
                 selection_id = generateSelectionId b, ects = None\<rparr>]
         \<and> (setItem_ok b \<longrightarrow>
               fst (planCourse b st courseId) = []
               \<and> loadSelectionsFromStorage (localStorage (snd (planCourse b st courseId)))
                   = ([], selections (snd (planCourse b st courseId))))
         \<and> (\<not> setItem_ok b \<longrightarrow>
               fst (planCourse b st courseId) = [Error_saving]
               \<and> localStorage (snd (planCourse b st courseId)) = localStorage st)"
proof -
  from assms(3) have "\<not> list_ex (\<lambda>s. course_id s = courseId) (selections st)"
    by (simp add: list_ex_iff)
  with assms(1,2) show ?thesis
    by (simp add: planCourse_def Let_def saveSelectionsToStorage_def new_selection_def
        loadSelectionsFromStorage_def JSON_parse_def JSON_stringify_def)
qed

theorem planCourse_appends_selection_witness:
  "planCourse (browser_at 5 ''0.abcdefghijk'')
      (app_of [fixed_course ''CS500'' 6, fixed_course ''CS530'' 8]
         [new_selection ''CS530'' ''sel_3_qrstuvwxy'' None]) ''CS500''
     = ([],
        \<lparr>catalog = [fixed_course ''CS500'' 6, fixed_course ''CS530'' 8],
         rules = None,
         selections = [new_selection ''CS530'' ''sel_3_qrstuvwxy'' None,
                       new_selection ''CS500'' ''sel_5_abcdefghi'' None],
         additionalCourseEcts = Map.empty,
         localStorage = Some (JsonText (JsonObject
           \<lparr>e_version = Some ''1.0'',
            e_selections = Some [new_selection ''CS530'' ''sel_3_qrstuvwxy'' None,
                                 new_selection ''CS500'' ''sel_5_abcdefghi'' None],
            e_lastModified = Some ''2024-10-01T08:00:00.000Z'', e_exportDate = None\<rparr>))\<rparr>)
   \<and> planCourse ((browser_at 5 ''0.abcdefghijk'')\<lparr>setItem_ok := False\<rparr>)
      (app_of [fixed_course ''CS500'' 6, fixed_course ''CS530'' 8]
         [new_selection ''CS530'' ''sel_3_qrstuvwxy'' None]) ''CS500''
     = ([Error_saving],
        \<lparr>catalog = [fixed_course ''CS500'' 6, fixed_course ''CS530'' 8],
         rules = None,
         selections = [new_selection ''CS530'' ''sel_3_qrstuvwxy'' None,
                       new_selection ''CS500'' ''sel_5_abcdefghi'' None],
         additionalCourseEcts = Map.empty,
         localStorage = None\<rparr>)"
proof -
  have ok: "setItem_ok (browser_at 5 ''0.abcdefghijk'')"
    and failing: "\<not> setItem_ok ((browser_at 5 ''0.abcdefghijk'')\<lparr>setItem_ok := False\<rparr>)"
    by (simp_all add: browser_at_def)
  have id: "generateSelectionId ((browser_at 5 ''0.abcdefghijk'')\<lparr>setItem_ok := False\<rparr>)
              = ''sel_5_abcdefghi''"
    using generateSelectionId_sample by (simp add: generateSelectionId_def browser_at_def)
  show ?thesis
    using ok failing
      planCourse_appends_selection
        [of "app_of [fixed_course ''CS500'' 6, fixed_course ''CS530'' 8]
               [new_selection ''CS530'' ''sel_3_qrstuvwxy'' None]"
            "''CS500''" "fixed_course ''CS500'' 6" "browser_at 5 ''0.abcdefghijk''"]
      planCourse_appends_selection
        [of "app_of [fixed_course ''CS500'' 6, fixed_course ''CS530'' 8]
               [new_selection ''CS530'' ''sel_3_qrstuvwxy'' None]"
            "''CS500''" "fixed_course ''CS500'' 6"
            "(browser_at 5 ''0.abcdefghijk'')\<lparr>setItem_ok := False\<rparr>"]
    by (simp add: planCourse_def app_of_def fixed_course_def find_course_def new_selection_def
        generateSelectionId_sample id Let_def saveSelectionsToStorage_def JSON_stringify_def
        STORAGE_VERSION_def)
      (simp add: browser_at_def)
qed

text \<open>
  C7 as stated fails on the freshness of the id: it is not compared with the ids in the
  list. When the clock reads 5 and the random number prints as \<^verbatim>\<open>0.abcdefghijk\<close>, the
  id is \<^verbatim>\<open>sel_5_abcdefghi\<close>, which a selection of another course already carries.
\<close>

theorem planCourse_selection_id_clash_counterexample:
  "map selection_id (selections (snd (planCourse (browser_at 5 ''0.abcdefghijk'')
      (app_of [fixed_course ''CS500'' 6, fixed_course ''CS530'' 8]
         [new_selection ''CS530'' ''sel_5_abcdefghi'' None]) ''CS500'')))
     = [''sel_5_abcdefghi'', ''sel_5_abcdefghi'']
   \<and> map course_id (selections (snd (planCourse (browser_at 5 ''0.abcdefghijk'')
      (app_of [fixed_course ''CS500'' 6, fixed_course ''CS530'' 8]
         [new_selection ''CS530'' ''sel_5_abcdefghi'' None]) ''CS500'')))
     = [''CS530'', ''CS500'']"
  by (simp add: planCourse_def app_of_def fixed_course_def find_course_def new_selection_def
      generateSelectionId_sample Let_def saveSelectionsToStorage_def split: prod.splits)

subsection \<open>At most one selection of a fixed-credit course\<close>

text \<open>The invariant, by course id: the count depends on the course ids only.\<close>

lemma fixed_credit_unique_iff:
  "fixed_credit_unique cat sels
     \<longleftrightarrow> (\<forall>courseId. references_fixed_credit cat courseId
            \<longrightarrow> length (filter (\<lambda>t. course_id t = courseId) sels) \<le> 1)"
proof
  assume inv: "fixed_credit_unique cat sels"
  show "\<forall>courseId. references_fixed_credit cat courseId
          \<longrightarrow> length (filter (\<lambda>t. course_id t = courseId) sels) \<le> 1"
  proof (intro allI impI)
    fix courseId
    assume fixed: "references_fixed_credit cat courseId"
    show "length (filter (\<lambda>t. course_id t = courseId) sels) \<le> 1"
    proof (cases "\<exists>s \<in> set sels. course_id s = courseId")
      case True
      then obtain s where "s \<in> set sels" and "course_id s = courseId" by blast
      with inv fixed show ?thesis by (auto simp add: fixed_credit_unique_def)
    next
      case False
      then have "filter (\<lambda>t. course_id t = courseId) sels = []"
        by (simp add: filter_empty_conv)
      then show ?thesis by simp
    qed
  qed
next
  assume "\<forall>courseId. references_fixed_credit cat courseId
            \<longrightarrow> length (filter (\<lambda>t. course_id t = courseId) sels) \<le> 1"
  then show "fixed_credit_unique cat sels"
    by (simp add: fixed_credit_unique_def)
qed

lemma find_course_distinct:
  "distinct (map c_id cat) \<Longrightarrow>
     find_course cat courseId = Some c \<longleftrightarrow> c \<in> set cat \<and> c_id c = courseId"
  by (induction cat) (auto simp add: find_course_def)

text \<open>
  In a catalog whose ids are distinct every entry is the one its id finds, and the
  invariant reads: every catalog entry that is not an Additional Course is referenced by
  at most one selection.
\<close>

lemma fixed_credit_unique_distinct_catalog:
  assumes "distinct (map c_id cat)"
  shows "fixed_credit_unique cat sels
     \<longleftrightarrow> (\<forall>c \<in> set cat. \<not> c_is_additional_course c
            \<longrightarrow> length (filter (\<lambda>t. course_id t = c_id c) sels) \<le> 1)"
proof -
  have "references_fixed_credit cat courseId
          \<longleftrightarrow> (\<exists>c \<in> set cat. c_id c = courseId \<and> \<not> c_is_additional_course c)" for courseId
  proof (cases "find_course cat courseId")
    case None
    then have "\<forall>c \<in> set cat. c_id c \<noteq> courseId"
      by (simp add: find_course_def find_None_iff)
    with None show ?thesis by (auto simp add: references_fixed_credit_def)
  next
    case (Some c)
    have "(c' \<in> set cat \<and> c_id c' = courseId) \<longleftrightarrow> c' = c" for c'
      using find_course_distinct [OF assms, of courseId c'] Some by auto
    then have "\<not> c_is_additional_course c
             \<longleftrightarrow> (\<exists>c' \<in> set cat. c_id c' = courseId \<and> \<not> c_is_additional_course c')"
      by metis
    with Some show ?thesis by (simp add: references_fixed_credit_def)
  qed
  then show ?thesis
    unfolding fixed_credit_unique_iff by auto
qed

lemma fixed_credit_unique_filter:
  assumes "fixed_credit_unique cat sels"
  shows "fixed_credit_unique cat (filter P sels)"
proof -
  have "length (filter (\<lambda>t. course_id t = courseId) (filter P sels))
          \<le> length (filter (\<lambda>t. course_id t = courseId) sels)" for courseId
  proof -
    have "filter (\<lambda>t. course_id t = courseId) (filter P sels)
            = filter P (filter (\<lambda>t. course_id t = courseId) sels)"
      by (simp add: conj_commute)
    then show ?thesis by (simp only: length_filter_le)
  qed
  with assms show ?thesis
    unfolding fixed_credit_unique_iff using le_trans by blast
qed

lemma fixed_credit_unique_same_ids:
  assumes "map course_id sels' = map course_id sels" and "fixed_credit_unique cat sels"
  shows "fixed_credit_unique cat sels'"
proof -
  have count: "length (filter (\<lambda>t. course_id t = courseId) xs)
                 = length (filter (\<lambda>x. x = courseId) (map course_id xs))"
    for courseId and xs :: "selection list"
    by (induction xs) simp_all
  from assms show ?thesis
    unfolding fixed_credit_unique_iff by (simp add: count)
qed

lemma fixed_credit_unique_append_new:
  assumes "fixed_credit_unique cat sels" and "\<forall>s \<in> set sels. course_id s \<noteq> course_id n"
  shows "fixed_credit_unique cat (sels @ [n])"
proof -
  from assms(2) have "filter (\<lambda>t. course_id t = course_id n) sels = []"
    by (simp add: filter_empty_conv)
  with assms(1) show ?thesis
    unfolding fixed_credit_unique_iff by auto
qed

lemma fixed_credit_unique_append_variable:
  assumes "fixed_credit_unique cat sels" and "\<not> references_fixed_credit cat (course_id n)"
  shows "fixed_credit_unique cat (sels @ [n])"
  using assms unfolding fixed_credit_unique_iff by auto

lemma toggle_loop_course_ids:
  "map course_id (toggle_loop courseId selectionId sels) = map course_id sels"
  by (induction sels) (simp_all add: toggle_status_def)

lemma saved_selections [simp]:
  "selections (snd (case saveSelectionsToStorage b sels item of
      (alerts, item') \<Rightarrow> (alerts, st\<lparr>selections := sels', localStorage := item'\<rparr>))) = sels'"
  and saved_catalog [simp]:
  "catalog (snd (case saveSelectionsToStorage b sels item of
      (alerts, item') \<Rightarrow> (alerts, st\<lparr>selections := sels', localStorage := item'\<rparr>))) = catalog st"
  by (simp_all split: prod.splits)

lemma planCourse_keeps_unique:
  assumes "fixed_credit_unique (catalog st) (selections st)"
  shows "fixed_credit_unique (catalog st) (selections (snd (planCourse b st courseId)))"
proof (cases "find_course (catalog st) courseId")
  case None
  with assms show ?thesis by (simp add: planCourse_def)
next
  case (Some course)
  show ?thesis
  proof (cases "list_ex (\<lambda>s. course_id s = courseId) (selections st)
                  \<or> c_is_additional_course course")
    case True
    with Some assms show ?thesis by (auto simp add: planCourse_def)
  next
    case False
    then have "\<forall>s \<in> set (selections st).
                 course_id s \<noteq> course_id (new_selection courseId (generateSelectionId b) None)"
      by (simp add: list_ex_iff new_selection_def)
    with assms have "fixed_credit_unique (catalog st)
        (selections st @ [new_selection courseId (generateSelectionId b) None])"
      by (rule fixed_credit_unique_append_new)
    with Some False show ?thesis by (simp add: planCourse_def Let_def)
  qed
qed

lemma addAdditionalCourse_keeps_unique:
  assumes "fixed_credit_unique (catalog st) (selections st)"
  shows "fixed_credit_unique (catalog st) (selections (snd (addAdditionalCourse b st courseId)))"
proof (cases "selections (snd (addAdditionalCourse b st courseId)) = selections st")
  case True
  with assms show ?thesis by simp
next
  case False
  then obtain course where found: "find_course (catalog st) courseId = Some course"
      and variable: "c_is_additional_course course"
    by (auto simp add: addAdditionalCourse_def split: option.splits if_splits)
  from False obtain e where
    appended: "selections (snd (addAdditionalCourse b st courseId))
                 = selections st @ [new_selection courseId (generateSelectionId b) (Some e)]"
    using addAdditionalCourse_selections [of b st courseId] by blast
  from found variable
  have "\<not> references_fixed_credit (catalog st)
            (course_id (new_selection courseId (generateSelectionId b) (Some e)))"
    by (simp add: references_fixed_credit_def new_selection_def)
  with assms show ?thesis
    unfolding appended by (rule fixed_credit_unique_append_variable)
qed

lemma removeCourse_keeps_unique:
  assumes "fixed_credit_unique (catalog st) (selections st)"
  shows "fixed_credit_unique (catalog st)
           (selections (snd (removeCourse b st courseId selectionId)))"
  using assms by (simp add: removeCourse_def Let_def fixed_credit_unique_filter)

lemma toggleCompleted_keeps_unique:
  assumes "fixed_credit_unique (catalog st) (selections st)"
  shows "fixed_credit_unique (catalog st)
           (selections (snd (toggleCompleted b st courseId selectionId)))"
proof -
  have "fixed_credit_unique (catalog st) (toggle_loop courseId selectionId (selections st))"
    using toggle_loop_course_ids assms by (rule fixed_credit_unique_same_ids)
  then show ?thesis by (simp add: toggleCompleted_def Let_def)
qed

lemma removeAllPlanned_keeps_unique:
  assumes "fixed_credit_unique (catalog st) (selections st)"
  shows "fixed_credit_unique (catalog st) (selections (snd (removeAllPlanned b st)))"
  using assms by (simp add: removeAllPlanned_def fixed_credit_unique_def)

lemma importLocalData_selections:
  "selections (snd (importLocalData b st file))
     = (case backup_selections file of
          None \<Rightarrow> selections st
        | Some sels \<Rightarrow> if confirm_answer b then sels else selections st)"
  by (simp add: importLocalData_def backup_selections_def JSON_parse_def
      split: option.splits stored_text.splits json_value.splits)

lemma importLocalData_keeps_unique:
  assumes "fixed_credit_unique (catalog st) (selections st)"
    and "keeps_fixed_credit_unique (catalog st) (ImportLocalData file)"
  shows "fixed_credit_unique (catalog st) (selections (snd (importLocalData b st file)))"
  using assms
  by (simp add: importLocalData_selections keeps_fixed_credit_unique_def split: option.splits)

lemma perform_catalog: "catalog (snd (perform b st a)) = catalog st"
proof (cases a)
  case (PlanCourse courseId)
  then show ?thesis by (simp add: planCourse_def Let_def split: option.splits)
next
  case (EnterEcts courseId input)
  then show ?thesis by simp
next
  case (AddAdditionalCourse courseId)
  then show ?thesis
    by (simp add: addAdditionalCourse_def Let_def split: option.splits prod.splits)
next
  case (RemoveCourse courseId selectionId)
  then show ?thesis by (simp add: removeCourse_def Let_def)
next
  case (ToggleCompleted courseId selectionId)
  then show ?thesis by (simp add: toggleCompleted_def Let_def)
next
  case RemoveAllPlanned
  then show ?thesis by (simp add: removeAllPlanned_def)
next
  case (ImportLocalData backup)
  then show ?thesis
    by (simp add: importLocalData_def split: option.splits json_value.splits)
qed

lemma perform_keeps_unique:
  assumes "fixed_credit_unique (catalog st) (selections st)"
    and "keeps_fixed_credit_unique (catalog st) a"
  shows "fixed_credit_unique (catalog st) (selections (snd (perform b st a)))"
proof (cases a)
  case (PlanCourse courseId)
  with assms show ?thesis by (simp add: planCourse_keeps_unique)
next
  case (EnterEcts courseId input)
  with assms show ?thesis by simp
next
  case (AddAdditionalCourse courseId)
  with assms show ?thesis by (simp add: addAdditionalCourse_keeps_unique)
next
  case (RemoveCourse courseId selectionId)
  with assms show ?thesis by (simp add: removeCourse_keeps_unique)
next
  case (ToggleCompleted courseId selectionId)
  with assms show ?thesis by (simp add: toggleCompleted_keeps_unique)
next
  case RemoveAllPlanned
  with assms show ?thesis by (simp add: removeAllPlanned_keeps_unique)
next
  case (ImportLocalData backup)
  with assms show ?thesis by (simp add: importLocalData_keeps_unique)
qed

text \<open>
  C1, as the code has it. Starting from a selection list in which at most one selection
  references any fixed-credit course, the invariant holds after every run of
  \<^verbatim>\<open>planCourse\<close>, \<^verbatim>\<open>addAdditionalCourse\<close>, \<^verbatim>\<open>removeCourse\<close>,
  \<^verbatim>\<open>toggleCompleted\<close> and \<^verbatim>\<open>removeAllPlanned\<close>, and of imports of backups whose
  own selection list satisfies it. An import installs the list of the backup as it is.
\<close>

theorem fixed_credit_unique_run:
  assumes "fixed_credit_unique (catalog st) (selections st)"
    and "\<forall>(b, a) \<in> set steps. keeps_fixed_credit_unique (catalog st) a"
  shows "fixed_credit_unique (catalog st) (selections (run st steps))
         \<and> catalog (run st steps) = catalog st"
  using assms
proof (induction steps arbitrary: st)
  case Nil
  then show ?case by simp
next
  case (Cons step steps)
  obtain b a where step: "step = (b, a)" by (cases step)
  let ?st = "snd (perform b st a)"
  have cat: "catalog ?st = catalog st" by (rule perform_catalog)
  from Cons.prems step have "fixed_credit_unique (catalog st) (selections ?st)"
    by (simp add: perform_keeps_unique)
  moreover from Cons.prems have "\<forall>(b, a) \<in> set steps. keeps_fixed_credit_unique (catalog st) a"
    by simp
  ultimately have "fixed_credit_unique (catalog ?st) (selections (run ?st steps))
         \<and> catalog (run ?st steps) = catalog ?st"
    using Cons.IH [of ?st] by (simp add: cat)
  then show ?case by (simp add: step cat)
qed
text \<open>
  An instance: planning the same fixed-credit course twice, adding a variable-credit
  selection, toggling, importing a backup with one selection of the course and
  planning it once more leave one selection of the fixed-credit course.
\<close>

theorem fixed_credit_unique_run_witness:
  "fixed_credit_unique [fixed_course ''CS500'' 6, additional_course ''AC1'' (Some 18)] []
   \<and> fixed_credit_unique [fixed_course ''CS500'' 6, additional_course ''AC1'' (Some 18)]
        [new_selection ''CS500'' ''sel_1_a'' None, new_selection ''AC1'' ''sel_2_b'' (Some 4),
         new_selection ''AC1'' ''sel_3_c'' (Some 5)]
   \<and> fixed_credit_unique [fixed_course ''CS500'' 6, additional_course ''AC1'' (Some 18)]
        (selections (run (app_of [fixed_course ''CS500'' 6, additional_course ''AC1'' (Some 18)] [])
           [(browser_at 5 ''0.abcdefghijk'', PlanCourse ''CS500''),
            (browser_at 6 ''0.bcdefghijkl'', PlanCourse ''CS500''),
            (browser_at 7 ''0.cdefghijklm'', EnterEcts ''AC1'' (code_units ''10'')),
            (browser_at 8 ''0.defghijklmn'', AddAdditionalCourse ''AC1''),
            (browser_at 9 ''0.efghijklmno'', ToggleCompleted ''CS500'' None),
            (browser_at 10 ''0.fghijklmnop'', ImportLocalData (Some (JsonText (JsonObject
               \<lparr>e_version = Some ''1.0'',
                e_selections = Some [new_selection ''CS500'' ''sel_1_a'' None,
                                     new_selection ''AC1'' ''sel_2_b'' (Some 4),
                                     new_selection ''AC1'' ''sel_3_c'' (Some 5)],
                e_lastModified = None,
                e_exportDate = Some ''2024-09-30T10:00:00.000Z''\<rparr>)))),
            (browser_at 11 ''0.ghijklmnopq'', PlanCourse ''CS500'')]))
   \<and> map course_id
        (selections (run (app_of [fixed_course ''CS500'' 6, additional_course ''AC1'' (Some 18)] [])
           [(browser_at 5 ''0.abcdefghijk'', PlanCourse ''CS500''),
            (browser_at 6 ''0.bcdefghijkl'', PlanCourse ''CS500''),
            (browser_at 7 ''0.cdefghijklm'', EnterEcts ''AC1'' (code_units ''10'')),
            (browser_at 8 ''0.defghijklmn'', AddAdditionalCourse ''AC1''),
            (browser_at 9 ''0.efghijklmno'', ToggleCompleted ''CS500'' None),
            (browser_at 10 ''0.fghijklmnop'', ImportLocalData (Some (JsonText (JsonObject
               \<lparr>e_version = Some ''1.0'',
                e_selections = Some [new_selection ''CS500'' ''sel_1_a'' None,
                                     new_selection ''AC1'' ''sel_2_b'' (Some 4),
                                     new_selection ''AC1'' ''sel_3_c'' (Some 5)],
                e_lastModified = None,
                e_exportDate = Some ''2024-09-30T10:00:00.000Z''\<rparr>)))),
            (browser_at 11 ''0.ghijklmnopq'', PlanCourse ''CS500'')]))
       = [''CS500'', ''AC1'', ''AC1'']"
proof -
  let ?cat = "[fixed_course ''CS500'' 6, additional_course ''AC1'' (Some 18)]"
  let ?backup = "[new_selection ''CS500'' ''sel_1_a'' None, new_selection ''AC1'' ''sel_2_b'' (Some 4),
         new_selection ''AC1'' ''sel_3_c'' (Some 5)]"
  have empty: "fixed_credit_unique ?cat []"
    by (simp add: fixed_credit_unique_def)
  have backup: "fixed_credit_unique ?cat ?backup"
    by (simp add: fixed_credit_unique_def references_fixed_credit_def find_course_def
        fixed_course_def additional_course_def new_selection_def)
  have ten: "parseInt (Some (code_units ''10'')) = Some 10"
    by (rule parseInt_10)
  show ?thesis
    using empty backup
      fixed_credit_unique_run
        [of "app_of ?cat []"
          "[(browser_at 5 ''0.abcdefghijk'', PlanCourse ''CS500''),
            (browser_at 6 ''0.bcdefghijkl'', PlanCourse ''CS500''),
            (browser_at 7 ''0.cdefghijklm'', EnterEcts ''AC1'' (code_units ''10'')),
            (browser_at 8 ''0.defghijklmn'', AddAdditionalCourse ''AC1''),
            (browser_at 9 ''0.efghijklmno'', ToggleCompleted ''CS500'' None),
            (browser_at 10 ''0.fghijklmnop'', ImportLocalData (Some (JsonText (JsonObject
               \<lparr>e_version = Some ''1.0'',
                e_selections = Some ?backup,
                e_lastModified = None,
                e_exportDate = Some ''2024-09-30T10:00:00.000Z''\<rparr>)))),
            (browser_at 11 ''0.ghijklmnopq'', PlanCourse ''CS500'')]"]
    by (simp add: keeps_fixed_credit_unique_def backup_selections_def)
      (simp add: app_of_def planCourse_def addAdditionalCourse_def toggleCompleted_def
        importLocalData_def set_credit_input_def find_course_def fixed_course_def additional_course_def
        new_selection_def ten plannedEcts_of_def js_or_num_def truthy_str_def toggle_status_def
        JSON_parse_def browser_at_def Let_def saveSelectionsToStorage_def)
qed

text \<open>
  C1 as stated fails for the import of a backup: the list of the file replaces the
  selection list unchecked, here with two selections of one fixed-credit course.
\<close>

theorem importLocalData_breaks_unique_counterexample:
  "fixed_credit_unique [fixed_course ''CS500'' 6] []
   \<and> \<not> fixed_credit_unique [fixed_course ''CS500'' 6]
        (selections (snd (importLocalData (browser_at 10 ''0.fghijklmnop'')
           (app_of [fixed_course ''CS500'' 6] [])
           (Some (JsonText (JsonObject
              \<lparr>e_version = Some ''1.0'',
               e_selections = Some [new_selection ''CS500'' ''sel_1_a'' None,
                                    new_selection ''CS500'' ''sel_2_b'' None],
               e_lastModified = None,
               e_exportDate = Some ''2024-09-30T10:00:00.000Z''\<rparr>))))))
   \<and> selections (snd (importLocalData (browser_at 10 ''0.fghijklmnop'')
           (app_of [fixed_course ''CS500'' 6] [])
           (Some (JsonText (JsonObject
              \<lparr>e_version = Some ''1.0'',
               e_selections = Some [new_selection ''CS500'' ''sel_1_a'' None,
                                    new_selection ''CS500'' ''sel_2_b'' None],
               e_lastModified = None,
               e_exportDate = Some ''2024-09-30T10:00:00.000Z''\<rparr>)))))
       = [new_selection ''CS500'' ''sel_1_a'' None, new_selection ''CS500'' ''sel_2_b'' None]"
  by (simp add: importLocalData_selections backup_selections_def browser_at_def
      fixed_credit_unique_def references_fixed_credit_def find_course_def fixed_course_def
      new_selection_def)

end
